theory Spec2Isabelle
  imports Complex_Main "HOL-Library.Multiset"
begin

section \<open>Beam Studio: the statics engine of \<^verbatim>\<open>streamlit_app.py\<close>\<close>

text \<open>
  The engine is two Python functions, \<^verbatim>\<open>validate_inputs\<close> and
  \<^verbatim>\<open>calculate_analysis\<close>, and the three ``Add load'' handlers of the form that
  call the validator and append to the list of loads.

  Numbers. The program computes with binary floating point. Here every number is a
  \<^typ>\<open>real\<close>: the arithmetic is exact, rounding and overflow are not modelled, and an
  equation between results is an equation of the exact values. What is modelled of the
  floating point is what a division by zero does, since that decides whether the program
  returns at all:
  \<^item> a division of two Python floats by zero raises \<^verbatim>\<open>ZeroDivisionError\<close>;
  \<^item> a division in which an operand is a NumPy scalar (a station \<^verbatim>\<open>xi\<close> of
    \<^verbatim>\<open>np.linspace\<close>, or a value computed from one) returns \<^verbatim>\<open>inf\<close> or
    \<^verbatim>\<open>nan\<close> and goes on; in the one place where that happens the moment of the station
    ends as \<^verbatim>\<open>nan\<close>, written \<open>None\<close> in a \<^typ>\<open>real option\<close>.
  The fields of a load are Python floats, as the form's number inputs return them and the
  handlers store them.
\<close>

subsection \<open>Python values and exceptions\<close>

datatype py_error = ZeroDivisionError | TypeError | IndexError

text \<open>An argument of \<^verbatim>\<open>validate_inputs\<close>: a number, or something that is not one.\<close>

datatype pyval = PyNum real | PyStr string | PyNone

subsection \<open>The loads\<close>

text \<open>
  A load is a dictionary with a \<^verbatim>\<open>"type"\<close> key; the fields are in the order in which
  the handlers write them:
  \<^verbatim>\<open>{"type":"POINT", "mag", "loc"}\<close>,
  \<^verbatim>\<open>{"type":"UDL", "mag", "start", "end"}\<close>,
  \<^verbatim>\<open>{"type":"UVL", "start_mag", "end_mag", "start", "end"}\<close>.
\<close>

datatype load =
    POINT real real
  | UDL real real real
  | UVL real real real real

subsection \<open>\<^verbatim>\<open>calculate_analysis\<close>: the reactions\<close>

text \<open>
  One pass of the first loop: the state is \<open>(m_sum, f_sum)\<close>.
\<close>

fun solver_step :: "real \<Rightarrow> load \<Rightarrow> real \<times> real \<Rightarrow> real \<times> real" where
  "solver_step SupA (POINT mag loc) (m_sum, f_sum) =
     (let f = mag in (m_sum + f * (loc - SupA), f_sum + f))"
| "solver_step SupA (UDL mag start end) (m_sum, f_sum) =
     (let length = end - start; f = mag * length
      in (m_sum + f * (start + length / 2 - SupA), f_sum + f))"
| "solver_step SupA (UVL start_mag end_mag start end) (m_sum, f_sum) =
     (let w1 = start_mag; w2 = end_mag; length = end - start;
          f1 = min w1 w2 * length; f2 = 0.5 * \<bar>w2 - w1\<bar> * length;
          c1 = start + length / 2 - SupA;
          c2 = (if w2 > w1 then start + (2 / 3) * length - SupA
                else start + (1 / 3) * length - SupA)
      in (m_sum + ((f1 * c1) + (f2 * c2)), f_sum + (f1 + f2)))"

text \<open>
  The reactions \<open>(Ra, Rb, Ma)\<close>. Every beam type other than \<^verbatim>\<open>"Cantilever"\<close> takes the
  branch of the division, which raises when \<open>SupB - SupA\<close> is zero.
\<close>

definition solve_reactions ::
  "real \<Rightarrow> real \<Rightarrow> string \<Rightarrow> load list \<Rightarrow> py_error + (real \<times> real \<times> real)" where
  "solve_reactions SupA SupB b_type loads =
     (let (m_sum, f_sum) = fold (solver_step SupA) loads (0, 0)
      in if b_type = ''Cantilever'' then Inr (f_sum, 0, m_sum)
         else if SupB - SupA = 0 then Inl ZeroDivisionError
         else (let Rb = m_sum / (SupB - SupA) in Inr (f_sum - Rb, Rb, 0)))"

subsection \<open>The reactions as the specification words them\<close>

text \<open>
  The resultant force of a load and its moment about support A, as the specification of
  the reaction solver gives them: a point load \<open>f\<close> at \<open>loc\<close>; a uniform load with
  resultant \<open>w (e - s)\<close> at the midpoint; a linearly varying load as a rectangle of
  intensity \<open>min w1 w2\<close> at the midpoint plus a triangle of resultant
  \<open>0.5 |w2 - w1| (e - s)\<close> whose centroid is at two thirds of the span when \<open>w2 > w1\<close>
  and at one third otherwise.
\<close>

fun spec_force :: "load \<Rightarrow> real" where
  "spec_force (POINT f loc) = f"
| "spec_force (UDL w s e) = w * (e - s)"
| "spec_force (UVL w1 w2 s e) = min w1 w2 * (e - s) + 0.5 * \<bar>w2 - w1\<bar> * (e - s)"

fun spec_moment :: "real \<Rightarrow> load \<Rightarrow> real" where
  "spec_moment SupA (POINT f loc) = f * (loc - SupA)"
| "spec_moment SupA (UDL w s e) = (w * (e - s)) * ((s + (e - s) / 2) - SupA)"
| "spec_moment SupA (UVL w1 w2 s e) =
     (min w1 w2 * (e - s)) * ((s + (e - s) / 2) - SupA)
     + (0.5 * \<bar>w2 - w1\<bar> * (e - s))
       * ((if w2 > w1 then s + 2 / 3 * (e - s) else s + 1 / 3 * (e - s)) - SupA)"

definition spec_F :: "load list \<Rightarrow> real" where
  "spec_F loads = sum_list (map spec_force loads)"

definition spec_M :: "real \<Rightarrow> load list \<Rightarrow> real" where
  "spec_M SupA loads = sum_list (map (spec_moment SupA) loads)"

subsection \<open>\<^verbatim>\<open>calculate_analysis\<close>: shear and moment at a station\<close>

text \<open>
  The contribution of the two supports at station \<open>xi\<close>, on the pair \<open>(v_val, m_val)\<close>.
\<close>

definition reaction_A_step :: "real \<Rightarrow> real \<Rightarrow> real \<Rightarrow> real \<Rightarrow> real \<times> real \<Rightarrow> real \<times> real" where
  "reaction_A_step SupA Ra Ma xi vm =
     (case vm of (v_val, m_val) \<Rightarrow>
        if xi > SupA then (v_val + Ra, m_val + (Ra * (xi - SupA) - Ma)) else (v_val, m_val))"

definition reaction_B_step :: "real \<Rightarrow> string \<Rightarrow> real \<Rightarrow> real \<Rightarrow> real \<times> real \<Rightarrow> real \<times> real" where
  "reaction_B_step SupB b_type Rb xi vm =
     (case vm of (v_val, m_val) \<Rightarrow>
        if b_type \<noteq> ''Cantilever'' \<and> xi > SupB
        then (v_val + Rb, m_val + Rb * (xi - SupB)) else (v_val, m_val))"

text \<open>
  Subtraction from a moment that may already be \<^verbatim>\<open>nan\<close> (\<open>None\<close>).
\<close>

fun nan_sub :: "real option \<Rightarrow> real \<Rightarrow> real option" where
  "nan_sub None x = None"
| "nan_sub (Some m) x = Some (m - x)"

text \<open>
  One load at station \<open>xi\<close>. A load whose branch is not taken leaves the pair as it is.
  In the branch of the linearly varying load, \<^verbatim>\<open>min(xi, l["end"])\<close> returns the Python
  float \<^verbatim>\<open>l["end"]\<close> when \<open>end < xi\<close> and the NumPy scalar \<open>xi\<close> otherwise. With the
  Python float, the two divisions raise on a zero denominator. With the NumPy scalar,
  \<open>end - start\<close> is positive, and a zero \<open>w1 + w_at_x\<close> gives \<^verbatim>\<open>inf\<close> or \<^verbatim>\<open>nan\<close>
  for \<open>cent\<close>, which the zero \<open>f_slice\<close> multiplies to \<^verbatim>\<open>nan\<close>: the shear is unchanged
  and the moment is \<^verbatim>\<open>nan\<close>.
\<close>

fun load_step :: "real \<Rightarrow> load \<Rightarrow> real \<times> real option \<Rightarrow> py_error + (real \<times> real option)" where
  "load_step xi (POINT mag loc) (v_val, m_val) =
     (if xi > loc then Inr (v_val - mag, nan_sub m_val (mag * (xi - loc)))
      else Inr (v_val, m_val))"
| "load_step xi (UDL mag start end) (v_val, m_val) =
     (if xi > start then
        (let ov = min xi end - start; f = mag * ov
         in Inr (v_val - f, nan_sub m_val (f * (xi - (start + ov / 2)))))
      else Inr (v_val, m_val))"
| "load_step xi (UVL start_mag end_mag start end) (v_val, m_val) =
     (if xi > start then
        (let python_float = (end < xi);
             curr_end = min xi end; dx = curr_end - start;
             w1 = start_mag
         in if python_float \<and> end - start = 0 then Inl ZeroDivisionError
            else
              (let w_at_x = w1 + ((end_mag - w1) * (dx / (end - start)));
                   f_slice = ((w1 + w_at_x) / 2) * dx
               in if w1 + w_at_x = 0
                  then (if python_float then Inl ZeroDivisionError
                        else Inr (v_val - f_slice, None))
                  else
                    (let cent = (dx / 3) * ((2 * w1 + w_at_x) / (w1 + w_at_x))
                     in Inr (v_val - f_slice,
                             nan_sub m_val (f_slice * (xi - (start + cent)))))))
      else Inr (v_val, m_val))"

text \<open>The inner loop over the loads; an exception ends it.\<close>

fun loads_loop :: "real \<Rightarrow> load list \<Rightarrow> real \<times> real option \<Rightarrow> py_error + (real \<times> real option)" where
  "loads_loop xi [] vm = Inr vm"
| "loads_loop xi (l # ls) vm =
     (case load_step xi l vm of Inl e \<Rightarrow> Inl e | Inr vm' \<Rightarrow> loads_loop xi ls vm')"

text \<open>The body of the outer loop: the values appended to \<open>V\<close> and \<open>M\<close> for station \<open>xi\<close>.\<close>

definition sample_station ::
  "real \<Rightarrow> real \<Rightarrow> string \<Rightarrow> real \<Rightarrow> real \<Rightarrow> real \<Rightarrow> load list \<Rightarrow> real
   \<Rightarrow> py_error + (real \<times> real option)" where
  "sample_station SupA SupB b_type Ra Rb Ma loads xi =
     (case reaction_B_step SupB b_type Rb xi (reaction_A_step SupA Ra Ma xi (0, 0)) of
        (v_val, m_val) \<Rightarrow> loads_loop xi loads (v_val, Some m_val))"

text \<open>
  The outer loop: \<open>V\<close> and \<open>M\<close> in the order of the stations. The first exception ends
  the whole call.
\<close>

fun stations_loop ::
  "(real \<Rightarrow> py_error + (real \<times> real option)) \<Rightarrow> real list
   \<Rightarrow> py_error + (real list \<times> real option list)" where
  "stations_loop body [] = Inr ([], [])"
| "stations_loop body (xi # xs) =
     (case body xi of
        Inl e \<Rightarrow> Inl e
      | Inr (v_val, m_val) \<Rightarrow>
          (case stations_loop body xs of
             Inl e \<Rightarrow> Inl e
           | Inr (V, M) \<Rightarrow> Inr (v_val # V, m_val # M)))"

text \<open>
  \<^verbatim>\<open>np.linspace(0, L, 500)\<close>: 500 stations, the step \<open>L / 499\<close> apart, the last one \<open>L\<close>.
\<close>

definition linspace :: "real \<Rightarrow> real list" where
  "linspace L = map (\<lambda>i. real i * (L / 499)) [0..<500]"

text \<open>The whole function: \<open>(x, V, M, Ra, Rb, Ma)\<close>, or the exception it raises.\<close>

definition calculate_analysis ::
  "real \<Rightarrow> real \<Rightarrow> real \<Rightarrow> string \<Rightarrow> load list
   \<Rightarrow> py_error + (real list \<times> real list \<times> real option list \<times> real \<times> real \<times> real)" where
  "calculate_analysis L SupA SupB b_type loads =
     (case solve_reactions SupA SupB b_type loads of
        Inl e \<Rightarrow> Inl e
      | Inr (Ra, Rb, Ma) \<Rightarrow>
          (case stations_loop (sample_station SupA SupB b_type Ra Rb Ma loads) (linspace L) of
             Inl e \<Rightarrow> Inl e
           | Inr (V, M) \<Rightarrow> Inr (linspace L, V, M, Ra, Rb, Ma)))"

subsection \<open>\<^verbatim>\<open>validate_inputs\<close>\<close>

text \<open>
  The second component of the result is the message. Two of the messages are formatted
  from the values they report, which the constructors carry.
  \<^item> \<open>NoMessage\<close>: the empty string;
  \<^item> \<open>BeamLengthMustBePositive\<close>: \<^verbatim>\<open>"Beam length must be positive."\<close>;
  \<^item> \<open>LocationOutsideBeam loc L\<close>: \<^verbatim>\<open>"Location {loc}m is outside beam (0-{L}m)."\<close>;
  \<^item> \<open>RangeOutsideBeam s e L\<close>: \<^verbatim>\<open>"Range {s}-{e}m is outside beam (0-{L}m)."\<close>;
  \<^item> \<open>StartEndSame\<close>: \<^verbatim>\<open>"Start and End cannot be the same point."\<close>;
  \<^item> \<open>InvalidNumericInput\<close>: \<^verbatim>\<open>"Invalid numeric input."\<close>.
\<close>

datatype message =
    NoMessage
  | BeamLengthMustBePositive
  | LocationOutsideBeam real real
  | RangeOutsideBeam real pyval real
  | StartEndSame
  | InvalidNumericInput

text \<open>
  The body of the \<^verbatim>\<open>try\<close>. Every comparison has a number on one side (the literal
  \<open>0\<close>, or \<open>L\<close> once \<^verbatim>\<open>L <= 0\<close> has been evaluated), so it raises \<^verbatim>\<open>TypeError\<close>
  exactly when the other side is not a number. \<^verbatim>\<open>args[0]\<close> and \<^verbatim>\<open>args[1]\<close> raise
  \<^verbatim>\<open>IndexError\<close> when the argument is missing. \<^verbatim>\<open>s < 0 or e > L\<close> does not
  evaluate \<^verbatim>\<open>e > L\<close> when \<^verbatim>\<open>s < 0\<close> holds.
\<close>

definition validate_body :: "string \<Rightarrow> pyval \<Rightarrow> pyval list \<Rightarrow> py_error + (bool \<times> message)" where
  "validate_body load_type L args =
     (case L of
        PyNum Lv \<Rightarrow>
          if Lv \<le> 0 then Inr (False, BeamLengthMustBePositive)
          else if load_type = ''POINT'' then
            (case args of
               [] \<Rightarrow> Inl IndexError
             | loc # _ \<Rightarrow>
                 (case loc of
                    PyNum locv \<Rightarrow>
                      if locv < 0 \<or> locv > Lv then Inr (False, LocationOutsideBeam locv Lv)
                      else Inr (True, NoMessage)
                  | _ \<Rightarrow> Inl TypeError))
          else if load_type \<in> set [''UDL'', ''UVL''] then
            (case args of
               s # e # _ \<Rightarrow>
                 (case s of
                    PyNum sv \<Rightarrow>
                      if sv < 0 then Inr (False, RangeOutsideBeam sv e Lv)
                      else
                        (case e of
                           PyNum ev \<Rightarrow>
                             if ev > Lv then Inr (False, RangeOutsideBeam sv e Lv)
                             else if sv = ev then Inr (False, StartEndSame)
                             else Inr (True, NoMessage)
                         | _ \<Rightarrow> Inl TypeError)
                  | _ \<Rightarrow> Inl TypeError)
             | _ \<Rightarrow> Inl IndexError)
          else Inr (True, NoMessage)
      | _ \<Rightarrow> Inl TypeError)"

text \<open>The bare \<^verbatim>\<open>except\<close> turns every exception of the body into a result.\<close>

definition validate_inputs :: "string \<Rightarrow> pyval \<Rightarrow> pyval list \<Rightarrow> bool \<times> message" where
  "validate_inputs load_type L args =
     (case validate_body load_type L args of
        Inl e \<Rightarrow> (False, InvalidNumericInput)
      | Inr r \<Rightarrow> r)"

subsection \<open>The handlers of the three ``Add'' buttons\<close>

text \<open>
  The ``smart swap'' of the two handlers for distributed loads, on \<open>(us, ue)\<close> and on
  \<open>(vm1, vm2, vs, ve)\<close>.
\<close>

definition swap_udl :: "real \<times> real \<Rightarrow> real \<times> real" where
  "swap_udl r = (case r of (us, ue) \<Rightarrow> if us > ue then (ue, us) else (us, ue))"

definition swap_uvl :: "real \<times> real \<times> real \<times> real \<Rightarrow> real \<times> real \<times> real \<times> real" where
  "swap_uvl r =
     (case r of (vm1, vm2, vs, ve) \<Rightarrow> if vs > ve then (vm2, vm1, ve, vs) else (vm1, vm2, vs, ve))"

text \<open>
  A handler returns the list of loads of the session and the error message it shows, if
  any.
\<close>

definition add_point_load :: "real \<Rightarrow> real \<Rightarrow> real \<Rightarrow> load list \<Rightarrow> load list \<times> message option" where
  "add_point_load L pm pl loads_list =
     (case validate_inputs ''POINT'' (PyNum L) [PyNum pl] of
        (valid, msg) \<Rightarrow>
          if valid then (loads_list @ [POINT pm pl], None) else (loads_list, Some msg))"

definition add_udl :: "real \<Rightarrow> real \<Rightarrow> real \<Rightarrow> real \<Rightarrow> load list \<Rightarrow> load list \<times> message option" where
  "add_udl L um us ue loads_list =
     (case swap_udl (us, ue) of
        (us, ue) \<Rightarrow>
          (case validate_inputs ''UDL'' (PyNum L) [PyNum us, PyNum ue] of
             (valid, msg) \<Rightarrow>
               if valid then (loads_list @ [UDL um us ue], None) else (loads_list, Some msg)))"

definition add_uvl ::
  "real \<Rightarrow> real \<Rightarrow> real \<Rightarrow> real \<Rightarrow> real \<Rightarrow> load list \<Rightarrow> load list \<times> message option" where
  "add_uvl L vm1 vm2 vs ve loads_list =
     (case swap_uvl (vm1, vm2, vs, ve) of
        (vm1, vm2, vs, ve) \<Rightarrow>
          (case validate_inputs ''UVL'' (PyNum L) [PyNum vs, PyNum ve] of
             (valid, msg) \<Rightarrow>
               if valid then (loads_list @ [UVL vm1 vm2 vs ve], None)
               else (loads_list, Some msg)))"

subsection \<open>The error kinds of the specification\<close>

text \<open>
  The specification names five kinds of validation error. The program reports a
  rejection by its message; this is the kind each message stands for. No message of the
  program stands for \<open>DegenerateSupportSpan\<close>.
\<close>

datatype error_kind =
  InvalidSpan | OutOfBounds | DegenerateRange | DegenerateSupportSpan | InvalidInput

fun kind_of :: "message \<Rightarrow> error_kind option" where
  "kind_of NoMessage = None"
| "kind_of BeamLengthMustBePositive = Some InvalidSpan"
| "kind_of (LocationOutsideBeam loc L) = Some OutOfBounds"
| "kind_of (RangeOutsideBeam s e L) = Some OutOfBounds"
| "kind_of StartEndSame = Some DegenerateRange"
| "kind_of InvalidNumericInput = Some InvalidInput"

subsection \<open>Where a load begins\<close>

text \<open>
  The position a station is compared with: the location of a point load, the start of a
  distributed one.
\<close>

fun load_position :: "load \<Rightarrow> real" where
  "load_position (POINT mag loc) = loc"
| "load_position (UDL mag start end) = start"
| "load_position (UVL start_mag end_mag start end) = start"

subsection \<open>Numbers among the Python values\<close>

fun is_num :: "pyval \<Rightarrow> bool" where
  "is_num (PyNum r) = True"
| "is_num (PyStr t) = False"
| "is_num PyNone = False"

section \<open>The reaction solver\<close>

lemma solver_step_spec:
  "solver_step SupA l (m, f) = (m + spec_moment SupA l, f + spec_force l)"
  by (cases l) (simp_all add: Let_def)

lemma fold_solver_step:
  "fold (solver_step SupA) loads (m, f) = (m + spec_M SupA loads, f + spec_F loads)"
proof (induction loads arbitrary: m f)
  case Nil
  show ?case by (simp add: spec_M_def spec_F_def)
next
  case (Cons l loads)
  have "fold (solver_step SupA) (l # loads) (m, f)
        = fold (solver_step SupA) loads (m + spec_moment SupA l, f + spec_force l)"
    by (simp add: solver_step_spec)
  also have "\<dots> = (m + spec_moment SupA l + spec_M SupA loads,
                    f + spec_force l + spec_F loads)"
    by (rule Cons.IH)
  finally show ?case by (simp add: spec_M_def spec_F_def add.assoc)
qed

text \<open>
  C1. The reaction solver accumulates the total force \<open>F\<close> and the total moment \<open>M\<close>
  about support A from the per-load contributions of the specification, and returns
  \<open>Ra = F\<close>, \<open>Rb = 0\<close>, \<open>Ma = M\<close> for a cantilever, and \<open>Rb = M / (SupB - SupA)\<close>,
  \<open>Ra = F - Rb\<close>, \<open>Ma = 0\<close> for any other beam type with \<open>SupB \<noteq> SupA\<close>.
\<close>

theorem solve_reactions_spec:
  "(b_type = ''Cantilever'' \<longrightarrow>
      solve_reactions SupA SupB b_type loads = Inr (spec_F loads, 0, spec_M SupA loads)) \<and>
   (b_type \<noteq> ''Cantilever'' \<and> SupB \<noteq> SupA \<longrightarrow>
      solve_reactions SupA SupB b_type loads =
        Inr (spec_F loads - spec_M SupA loads / (SupB - SupA),
             spec_M SupA loads / (SupB - SupA), 0))"
  by (simp add: solve_reactions_def fold_solver_step Let_def)

theorem solve_reactions_spec_witness:
  "''Simply Supported'' \<noteq> ''Cantilever'' \<and> (10::real) \<noteq> 0 \<and>
   solve_reactions 0 10 ''Simply Supported'' [POINT 10 5] = Inr (5, 5, 0) \<and>
   solve_reactions 0 6 ''Cantilever'' [POINT 12 6] = Inr (12, 0, 72)"
  using solve_reactions_spec [of "''Simply Supported''" 0 10 "[POINT 10 5]"]
        solve_reactions_spec [of "''Cantilever''" 0 6 "[POINT 12 6]"]
  by (simp add: spec_F_def spec_M_def)

section \<open>The strict comparison of the sampler\<close>

lemma load_step_not_engaged:
  "xi \<le> load_position l \<Longrightarrow> load_step xi l vm = Inr vm"
  by (cases l; cases vm) simp_all

lemma loads_loop_append:
  "loads_loop xi (ls1 @ ls2) vm =
     (case loads_loop xi ls1 vm of Inl e \<Rightarrow> Inl e | Inr vm' \<Rightarrow> loads_loop xi ls2 vm')"
  by (induction ls1 arbitrary: vm) (simp_all split: sum.splits)

lemma loads_loop_drop_not_engaged:
  assumes "xi \<le> load_position l"
  shows "loads_loop xi (ls1 @ l # ls2) vm = loads_loop xi (ls1 @ ls2) vm"
  by (simp add: loads_loop_append load_step_not_engaged [OF assms] split: sum.splits)

text \<open>
  C4. At a station \<open>xi\<close> that is not strictly past the position of a load (its location
  or its start), the load changes neither the shear nor the moment: its step returns the
  pair it was given, and the station's values are those of the analysis without the
  load. The same holds of the two reactions at their supports. Strictly past the
  position, a point load, a uniform load and the reactions do contribute, by the amounts
  stated.
\<close>

theorem strict_engagement:
  "(xi \<le> load_position l \<longrightarrow> load_step xi l vm = Inr vm) \<and>
   (xi \<le> load_position l \<longrightarrow>
      sample_station SupA SupB b_type Ra Rb Ma (ls1 @ l # ls2) xi =
      sample_station SupA SupB b_type Ra Rb Ma (ls1 @ ls2) xi) \<and>
   (xi \<le> SupA \<longrightarrow> reaction_A_step SupA Ra Ma xi rvm = rvm) \<and>
   (xi \<le> SupB \<longrightarrow> reaction_B_step SupB b_type Rb xi rvm = rvm) \<and>
   (xi > loc \<longrightarrow>
      load_step xi (POINT mag loc) (v, m) = Inr (v - mag, nan_sub m (mag * (xi - loc)))) \<and>
   (xi > start \<longrightarrow>
      load_step xi (UDL mag start en) (v, m) =
        Inr (v - mag * (min xi en - start),
             nan_sub m (mag * (min xi en - start) * (xi - (start + (min xi en - start) / 2))))) \<and>
   (xi > SupA \<longrightarrow>
      reaction_A_step SupA Ra Ma xi (rv, rm) = (rv + Ra, rm + (Ra * (xi - SupA) - Ma))) \<and>
   (b_type \<noteq> ''Cantilever'' \<and> xi > SupB \<longrightarrow>
      reaction_B_step SupB b_type Rb xi (rv, rm) = (rv + Rb, rm + Rb * (xi - SupB)))"
proof -
  have "xi \<le> load_position l \<longrightarrow>
      sample_station SupA SupB b_type Ra Rb Ma (ls1 @ l # ls2) xi =
      sample_station SupA SupB b_type Ra Rb Ma (ls1 @ ls2) xi"
    by (simp add: sample_station_def loads_loop_drop_not_engaged split: prod.splits)
  moreover have "xi \<le> SupA \<longrightarrow> reaction_A_step SupA Ra Ma xi rvm = rvm"
    by (cases rvm) (simp add: reaction_A_step_def)
  moreover have "xi \<le> SupB \<longrightarrow> reaction_B_step SupB b_type Rb xi rvm = rvm"
    by (cases rvm) (simp add: reaction_B_step_def)
  ultimately show ?thesis
    by (simp add: load_step_not_engaged reaction_A_step_def reaction_B_step_def Let_def)
qed

theorem strict_engagement_witness:
  "(5::real) \<le> load_position (POINT 10 5) \<and>
   load_step 5 (POINT 10 5) (3, Some 4) = Inr (3, Some 4) \<and>
   sample_station 5 10 ''Simply Supported'' 5 5 0 ([UDL 5 2 8] @ POINT 10 5 # []) 5 =
   sample_station 5 10 ''Simply Supported'' 5 5 0 ([UDL 5 2 8] @ []) 5 \<and>
   (5::real) \<le> 5 \<and> reaction_A_step 5 5 0 5 (0, 0) = (0, 0) \<and>
   (5::real) \<le> 10 \<and> reaction_B_step 10 ''Simply Supported'' 5 5 (0, 0) = (0, 0) \<and>
   (5::real) > 2 \<and> load_step 5 (POINT 10 2) (5, Some 30) = Inr (- 5, Some 0) \<and>
   load_step 5 (UDL 10 2 8) (5, Some 30) = Inr (- 25, Some (- 15)) \<and>
   (11::real) > 0 \<and> reaction_A_step 0 5 0 11 (5, 55) = (10, 110) \<and>
   ''Simply Supported'' \<noteq> ''Cantilever'' \<and> (11::real) > 10 \<and>
   reaction_B_step 10 ''Simply Supported'' 5 11 (5, 55) = (10, 60)"
  using strict_engagement [where xi = 5 and l = "POINT 10 5" and vm = "(3, Some 4)"
          and SupA = 5 and SupB = 10 and b_type = "''Simply Supported''"
          and Ra = 5 and Rb = 5 and Ma = 0 and ?ls1.0 = "[UDL 5 2 8]" and ?ls2.0 = "[]"
          and rvm = "(0, 0)" and loc = 2 and mag = 10 and v = 5 and m = "Some 30"
          and start = 2 and en = 8 and rv = 0 and rm = 0]
        strict_engagement [where xi = 11 and l = "POINT 10 50" and vm = "(3, Some 4)"
          and SupA = 0 and SupB = 10 and b_type = "''Simply Supported''"
          and Ra = 5 and Rb = 5 and Ma = 0 and ?ls1.0 = "[]" and ?ls2.0 = "[]"
          and rvm = "(0, 0)" and loc = 2 and mag = 10 and v = 5 and m = "Some 30"
          and start = 2 and en = 8 and rv = 5 and rm = 55]
  by simp

section \<open>The validator\<close>

lemma validate_inputs_point:
  "0 < L \<Longrightarrow> validate_inputs ''POINT'' (PyNum L) [PyNum loc] =
     (if loc < 0 \<or> loc > L then (False, LocationOutsideBeam loc L) else (True, NoMessage))"
  by (simp add: validate_inputs_def validate_body_def)

lemma validate_inputs_range:
  "0 < L \<Longrightarrow> lt = ''UDL'' \<or> lt = ''UVL'' \<Longrightarrow>
   validate_inputs lt (PyNum L) [PyNum s, PyNum e] =
     (if s < 0 \<or> e > L then (False, RangeOutsideBeam s (PyNum e) L)
      else if s = e then (False, StartEndSame) else (True, NoMessage))"
  by (auto simp add: validate_inputs_def validate_body_def)

lemma validate_inputs_span:
  "L \<le> 0 \<Longrightarrow> validate_inputs lt (PyNum L) args = (False, BeamLengthMustBePositive)"
  by (simp add: validate_inputs_def validate_body_def)

text \<open>
  C5. On a beam of length \<open>L > 0\<close>, a point load is accepted exactly when
  \<open>0 \<le> location \<le> L\<close> and is otherwise rejected with a message of kind \<open>OutOfBounds\<close>;
  a uniform or linearly varying load is accepted exactly when \<open>start \<ge> 0\<close>,
  \<open>end \<le> L\<close> and \<open>start \<noteq> end\<close>, is rejected with kind \<open>OutOfBounds\<close> when
  \<open>start < 0\<close> or \<open>end > L\<close>, and with kind \<open>DegenerateRange\<close> when it is within
  bounds and \<open>start = end\<close>. When \<open>L \<le> 0\<close> every load, whatever its kind and
  arguments, is rejected with kind \<open>InvalidSpan\<close>.
\<close>

theorem validate_inputs_accepts_iff:
  "(0 < L \<longrightarrow>
      (fst (validate_inputs ''POINT'' (PyNum L) [PyNum loc]) = (0 \<le> loc \<and> loc \<le> L)) \<and>
      (\<not> (0 \<le> loc \<and> loc \<le> L) \<longrightarrow>
         kind_of (snd (validate_inputs ''POINT'' (PyNum L) [PyNum loc])) = Some OutOfBounds)) \<and>
   (0 < L \<and> (lt = ''UDL'' \<or> lt = ''UVL'') \<longrightarrow>
      (fst (validate_inputs lt (PyNum L) [PyNum s, PyNum e]) = (s \<ge> 0 \<and> e \<le> L \<and> s \<noteq> e)) \<and>
      (s < 0 \<or> e > L \<longrightarrow>
         kind_of (snd (validate_inputs lt (PyNum L) [PyNum s, PyNum e])) = Some OutOfBounds) \<and>
      (s \<ge> 0 \<and> e \<le> L \<and> s = e \<longrightarrow>
         kind_of (snd (validate_inputs lt (PyNum L) [PyNum s, PyNum e])) = Some DegenerateRange)) \<and>
   (L \<le> 0 \<longrightarrow>
      fst (validate_inputs any_type (PyNum L) args) = False \<and>
      kind_of (snd (validate_inputs any_type (PyNum L) args)) = Some InvalidSpan)"
proof -
  have point: "0 < L \<longrightarrow>
      (fst (validate_inputs ''POINT'' (PyNum L) [PyNum loc]) = (0 \<le> loc \<and> loc \<le> L)) \<and>
      (\<not> (0 \<le> loc \<and> loc \<le> L) \<longrightarrow>
         kind_of (snd (validate_inputs ''POINT'' (PyNum L) [PyNum loc])) = Some OutOfBounds)"
    by (auto simp add: validate_inputs_point)
  have range: "0 < L \<and> (lt = ''UDL'' \<or> lt = ''UVL'') \<longrightarrow>
      (fst (validate_inputs lt (PyNum L) [PyNum s, PyNum e]) = (s \<ge> 0 \<and> e \<le> L \<and> s \<noteq> e)) \<and>
      (s < 0 \<or> e > L \<longrightarrow>
         kind_of (snd (validate_inputs lt (PyNum L) [PyNum s, PyNum e])) = Some OutOfBounds) \<and>
      (s \<ge> 0 \<and> e \<le> L \<and> s = e \<longrightarrow>
         kind_of (snd (validate_inputs lt (PyNum L) [PyNum s, PyNum e])) = Some DegenerateRange)"
  proof
    assume h: "0 < L \<and> (lt = ''UDL'' \<or> lt = ''UVL'')"
    then have eq: "validate_inputs lt (PyNum L) [PyNum s, PyNum e] =
       (if s < 0 \<or> e > L then (False, RangeOutsideBeam s (PyNum e) L)
        else if s = e then (False, StartEndSame) else (True, NoMessage))"
      by (intro validate_inputs_range) simp_all
    show "(fst (validate_inputs lt (PyNum L) [PyNum s, PyNum e]) = (s \<ge> 0 \<and> e \<le> L \<and> s \<noteq> e)) \<and>
      (s < 0 \<or> e > L \<longrightarrow>
         kind_of (snd (validate_inputs lt (PyNum L) [PyNum s, PyNum e])) = Some OutOfBounds) \<and>
      (s \<ge> 0 \<and> e \<le> L \<and> s = e \<longrightarrow>
         kind_of (snd (validate_inputs lt (PyNum L) [PyNum s, PyNum e])) = Some DegenerateRange)"
      unfolding eq by auto
  qed
  have span: "L \<le> 0 \<longrightarrow>
      fst (validate_inputs any_type (PyNum L) args) = False \<and>
      kind_of (snd (validate_inputs any_type (PyNum L) args)) = Some InvalidSpan"
    by (simp add: validate_inputs_span)
  from point range span show ?thesis by blast
qed

theorem validate_inputs_accepts_iff_witness:
  "(0::real) < 10 \<and>
   fst (validate_inputs ''POINT'' (PyNum 10) [PyNum 15]) = False \<and>
   \<not> ((0::real) \<le> 15 \<and> (15::real) \<le> 10) \<and>
   kind_of (snd (validate_inputs ''POINT'' (PyNum 10) [PyNum 15])) = Some OutOfBounds \<and>
   fst (validate_inputs ''POINT'' (PyNum 10) [PyNum 5]) = True \<and>
   fst (validate_inputs ''UDL'' (PyNum 10) [PyNum 2, PyNum 8]) = True \<and>
   ((2::real) < 0 \<or> (12::real) > 10) \<and>
   kind_of (snd (validate_inputs ''UVL'' (PyNum 10) [PyNum 2, PyNum 12])) = Some OutOfBounds \<and>
   ((3::real) \<ge> 0 \<and> (3::real) \<le> 10) \<and>
   kind_of (snd (validate_inputs ''UVL'' (PyNum 10) [PyNum 3, PyNum 3])) = Some DegenerateRange \<and>
   (0::real) \<le> 0 \<and>
   kind_of (snd (validate_inputs ''UDL'' (PyNum 0) [PyStr ''abc''])) = Some InvalidSpan"
  using validate_inputs_accepts_iff [where L = 10 and loc = 15 and lt = "''UVL''"
          and s = 2 and e = 12 and any_type = "''UDL''" and args = "[]"]
        validate_inputs_accepts_iff [where L = 10 and loc = 5 and lt = "''UDL''"
          and s = 2 and e = 8 and any_type = "''UDL''" and args = "[]"]
        validate_inputs_accepts_iff [where L = 10 and loc = 5 and lt = "''UVL''"
          and s = 3 and e = 3 and any_type = "''UDL''" and args = "[]"]
        validate_inputs_accepts_iff [where L = 0 and loc = 5 and lt = "''UVL''"
          and s = 3 and e = 3 and any_type = "''UDL''" and args = "[PyStr ''abc'']"]
  by simp

section \<open>The smart swap\<close>

text \<open>
  C6. A distributed load entered with \<open>start > end\<close> has its two positions swapped,
  and a linearly varying one its two intensities with them; a range with
  \<open>start \<le> end\<close> is left as it is, the result always has \<open>start \<le> end\<close>, and swapping
  a second time changes nothing. Each intensity stays at its position: the pairs
  (position, intensity) of the swapped load are those of the load as entered. The
  handlers store the same load for the values as entered and for the swapped values.
\<close>

theorem smart_swap_normalizes:
  "(us > ue \<longrightarrow> swap_udl (us, ue) = (ue, us)) \<and>
   (vs > ve \<longrightarrow> swap_uvl (vm1, vm2, vs, ve) = (vm2, vm1, ve, vs)) \<and>
   (us \<le> ue \<longrightarrow> swap_udl (us, ue) = (us, ue)) \<and>
   (vs \<le> ve \<longrightarrow> swap_uvl (vm1, vm2, vs, ve) = (vm1, vm2, vs, ve)) \<and>
   fst (swap_udl (us, ue)) \<le> snd (swap_udl (us, ue)) \<and>
   (case swap_uvl (vm1, vm2, vs, ve) of (a, b, s, e) \<Rightarrow>
      s \<le> e \<and> {(s, a), (e, b)} = {(vs, vm1), (ve, vm2)}) \<and>
   swap_udl (swap_udl (us, ue)) = swap_udl (us, ue) \<and>
   swap_uvl (swap_uvl (vm1, vm2, vs, ve)) = swap_uvl (vm1, vm2, vs, ve) \<and>
   (case swap_udl (us, ue) of (s, e) \<Rightarrow> add_udl L um s e loads_list) =
     add_udl L um us ue loads_list \<and>
   (case swap_uvl (vm1, vm2, vs, ve) of (a, b, s, e) \<Rightarrow> add_uvl L a b s e loads_list) =
     add_uvl L vm1 vm2 vs ve loads_list"
  by (auto simp add: swap_udl_def swap_uvl_def add_udl_def add_uvl_def)

theorem smart_swap_normalizes_witness:
  "(8::real) > 2 \<and> swap_udl (8, 2) = (2, 8) \<and> swap_uvl (0, 10, 8, 2) = (10, 0, 2, 8) \<and>
   (2::real) \<le> 8 \<and> swap_udl (2, 8) = (2, 8) \<and> swap_uvl (10, 0, 2, 8) = (10, 0, 2, 8) \<and>
   add_uvl 10 0 10 8 2 [] = ([UVL 10 0 2 8], None) \<and>
   add_uvl 10 10 0 2 8 [] = ([UVL 10 0 2 8], None)"
proof -
  have "add_uvl 10 10 0 2 8 [] = ([UVL 10 0 2 8], None)"
    by (simp add: add_uvl_def swap_uvl_def validate_inputs_range)
  then show ?thesis
    using smart_swap_normalizes [where us = 8 and ue = 2 and vs = 8 and ve = 2
            and ?vm1.0 = 0 and ?vm2.0 = 10 and L = 10 and um = 5 and loads_list = "[]"]
          smart_swap_normalizes [where us = 2 and ue = 8 and vs = 2 and ve = 8
            and ?vm1.0 = 10 and ?vm2.0 = 0 and L = 10 and um = 5 and loads_list = "[]"]
    by (elim conjE) simp
qed

section \<open>What the validator reports, and what it does not look at\<close>

lemma validate_inputs_raises:
  "validate_body lt L args = Inl ex \<Longrightarrow> validate_inputs lt L args = (False, InvalidNumericInput)"
  by (simp add: validate_inputs_def)

lemma validate_body_message:
  "validate_body lt L args = Inr r \<Longrightarrow>
   r = (True, NoMessage) \<or>
   (fst r = False \<and> kind_of (snd r) \<in> {Some InvalidSpan, Some OutOfBounds, Some DegenerateRange})"
  by (auto simp add: validate_body_def split: pyval.splits list.splits if_splits)

lemma validate_body_raises_iff:
  "(\<exists>ex. validate_body lt L args = Inl ex) =
   (\<not> is_num L \<or>
    (\<exists>Lv. L = PyNum Lv \<and> 0 < Lv \<and>
       ((lt = ''POINT'' \<and> (args = [] \<or> \<not> is_num (args ! 0))) \<or>
        ((lt = ''UDL'' \<or> lt = ''UVL'') \<and>
           (length args < 2 \<or> \<not> is_num (args ! 0) \<or>
            (\<exists>sv. args ! 0 = PyNum sv \<and> 0 \<le> sv \<and> \<not> is_num (args ! 1)))))))"
proof (cases L)
  case (PyNum Lv)
  show ?thesis
  proof (cases "Lv \<le> 0")
    case True
    with PyNum show ?thesis by (simp add: validate_body_def)
  next
    case pos: False
    show ?thesis
    proof (cases args)
      case Nil
      with PyNum pos show ?thesis by (simp add: validate_body_def)
    next
      case (Cons a as)
      note c1 = Cons
      show ?thesis
      proof (cases as)
        case Nil
        with PyNum pos c1 show ?thesis
          by (cases a) (auto simp add: validate_body_def)
      next
        case (Cons b bs)
        with PyNum pos c1 show ?thesis
          by (cases a; cases b) (auto simp add: validate_body_def)
      qed
    qed
  qed
next
  case (PyStr t)
  then show ?thesis by (simp add: validate_body_def)
next
  case PyNone
  then show ?thesis by (simp add: validate_body_def)
qed

text \<open>
  C9, as the code has it. \<^verbatim>\<open>validate_inputs\<close> returns a result on every input: an
  exception raised in its body becomes the rejection \<open>Invalid numeric input.\<close>, and
  every result is either the acceptance or a rejection whose message has one of the
  kinds \<open>InvalidSpan\<close>, \<open>OutOfBounds\<close>, \<open>DegenerateRange\<close>, \<open>InvalidInput\<close>. The
  kind is \<open>InvalidInput\<close> exactly when a field that is compared is not a number (or an
  argument that is read is missing): \<open>L\<close>; for \<open>L > 0\<close>, the location of a point load;
  the start of a distributed load; its end when the start is a number that is not
  negative. A field that is not a number and is never compared is not reported.
\<close>

theorem validate_inputs_invalid_input_iff:
  "(validate_body lt L args = Inl ex \<longrightarrow>
      validate_inputs lt L args = (False, InvalidNumericInput)) \<and>
   (validate_inputs lt L args = (True, NoMessage) \<or>
    (fst (validate_inputs lt L args) = False \<and>
     kind_of (snd (validate_inputs lt L args)) \<in>
       {Some InvalidSpan, Some OutOfBounds, Some DegenerateRange, Some InvalidInput})) \<and>
   ((validate_inputs lt L args = (False, InvalidNumericInput)) =
    (\<not> is_num L \<or>
     (\<exists>Lv. L = PyNum Lv \<and> 0 < Lv \<and>
        ((lt = ''POINT'' \<and> (args = [] \<or> \<not> is_num (args ! 0))) \<or>
         ((lt = ''UDL'' \<or> lt = ''UVL'') \<and>
            (length args < 2 \<or> \<not> is_num (args ! 0) \<or>
             (\<exists>sv. args ! 0 = PyNum sv \<and> 0 \<le> sv \<and> \<not> is_num (args ! 1))))))))"
proof (intro conjI)
  show "validate_body lt L args = Inl ex \<longrightarrow>
      validate_inputs lt L args = (False, InvalidNumericInput)"
    by (simp add: validate_inputs_raises)
  show "validate_inputs lt L args = (True, NoMessage) \<or>
    (fst (validate_inputs lt L args) = False \<and>
     kind_of (snd (validate_inputs lt L args)) \<in>
       {Some InvalidSpan, Some OutOfBounds, Some DegenerateRange, Some InvalidInput})"
  proof (cases "validate_body lt L args")
    case (Inl ex')
    then show ?thesis by (simp add: validate_inputs_def)
  next
    case (Inr r)
    with validate_body_message [OF Inr] show ?thesis
      by (auto simp add: validate_inputs_def)
  qed
  have "(validate_inputs lt L args = (False, InvalidNumericInput)) =
        (\<exists>ex'. validate_body lt L args = Inl ex')"
  proof (cases "validate_body lt L args")
    case (Inl ex')
    then show ?thesis by (simp add: validate_inputs_def)
  next
    case (Inr r)
    with validate_body_message [OF Inr] show ?thesis
      by (auto simp add: validate_inputs_def)
  qed
  then show "(validate_inputs lt L args = (False, InvalidNumericInput)) =
    (\<not> is_num L \<or>
     (\<exists>Lv. L = PyNum Lv \<and> 0 < Lv \<and>
        ((lt = ''POINT'' \<and> (args = [] \<or> \<not> is_num (args ! 0))) \<or>
         ((lt = ''UDL'' \<or> lt = ''UVL'') \<and>
            (length args < 2 \<or> \<not> is_num (args ! 0) \<or>
             (\<exists>sv. args ! 0 = PyNum sv \<and> 0 \<le> sv \<and> \<not> is_num (args ! 1)))))))"
    by (simp only: validate_body_raises_iff)
qed

theorem validate_inputs_invalid_input_iff_witness:
  "validate_body ''UDL'' (PyNum 10) [PyNum 2, PyStr ''abc''] = Inl TypeError \<and>
   validate_inputs ''UDL'' (PyNum 10) [PyNum 2, PyStr ''abc''] = (False, InvalidNumericInput)"
proof -
  have "validate_body ''UDL'' (PyNum 10) [PyNum 2, PyStr ''abc''] = Inl TypeError"
    by (simp add: validate_body_def)
  then show ?thesis
    using validate_inputs_invalid_input_iff
            [of "''UDL''" "PyNum 10" "[PyNum 2, PyStr ''abc'']" TypeError]
    by simp
qed

text \<open>
  The claim as stated fails where a field that is not a number is never compared: the
  end of a range whose start is negative, and any field of a load on a beam with
  \<open>L \<le> 0\<close>.
\<close>

theorem validate_inputs_non_numeric_counterexample:
  "\<not> is_num (PyStr ''abc'') \<and>
   validate_inputs ''UDL'' (PyNum 10) [PyNum (- 1), PyStr ''abc''] =
     (False, RangeOutsideBeam (- 1) (PyStr ''abc'') 10) \<and>
   kind_of (snd (validate_inputs ''UDL'' (PyNum 10) [PyNum (- 1), PyStr ''abc''])) =
     Some OutOfBounds \<and>
   validate_inputs ''POINT'' (PyNum 0) [PyStr ''abc''] = (False, BeamLengthMustBePositive) \<and>
   kind_of (snd (validate_inputs ''POINT'' (PyNum 0) [PyStr ''abc''])) = Some InvalidSpan"
  by (simp add: validate_inputs_def validate_body_def)

end
